theory Spec2Isabelle
  imports Main
begin

section \<open>Python values, keyword options and exceptions\<close>

text \<open>
  The transport of \<^verbatim>\<open>_requests_trio.py\<close> moves opaque Python values around: header
  tables, bodies, flags, the concurrency limiter. A body may be a byte string, a plain
  sequence of parts or an asynchronous sequence of parts; every other object is known by
  its identity only.
\<close>

datatype pyval =
    PNone
  | PBool bool
  | PInt int
  | PStr string
  | PBytes string
  | PIter "string list"
  | PAsyncIter "string list"
  | PObj nat

text \<open>Truth value of an object, as \<^verbatim>\<open>if x:\<close> and \<^verbatim>\<open>not x\<close> read it.\<close>

fun truthy :: "pyval \<Rightarrow> bool" where
  "truthy PNone = False"
| "truthy (PBool b) = b"
| "truthy (PInt i) = (i \<noteq> 0)"
| "truthy (PStr s) = (s \<noteq> [])"
| "truthy (PBytes s) = (s \<noteq> [])"
| "truthy (PIter xs) = True"
| "truthy (PAsyncIter xs) = True"
| "truthy (PObj n) = True"

text \<open>
  \<^verbatim>\<open>**kwargs\<close> is a dictionary with string keys, kept as an association list.
  \<^verbatim>\<open>kwargs.get(k, d)\<close> reads without removing, \<^verbatim>\<open>kwargs.pop(k, d)\<close> reads and removes.
\<close>

type_synonym kwargs = "(string \<times> pyval) list"

definition get :: "kwargs \<Rightarrow> string \<Rightarrow> pyval \<Rightarrow> pyval" where
  "get kw k d = (case map_of kw k of None \<Rightarrow> d | Some v \<Rightarrow> v)"

definition pop :: "kwargs \<Rightarrow> string \<Rightarrow> pyval \<Rightarrow> pyval \<times> kwargs" where
  "pop kw k d = (get kw k d, filter (\<lambda>p. fst p \<noteq> k) kw)"

text \<open>
  The exception classes the transport can meet: the built-in ones, those of urllib3
  (prefix \<open>U3\<close>), those of requests (prefix \<open>Rq\<close>, with \<open>RequestException\<close> at their
  root), the scheduler's cancellation signal (a \<open>BaseException\<close> that is not an
  \<open>Exception\<close>) and the end-of-stream signal \<^verbatim>\<open>_ResponseStopIteration\<close> of the
  asynchronous base transport.
\<close>

datatype exn_class =
    BaseException | Exception | Cancelled
  | AttributeError | TypeError | ValueError | OSError
  | U3_HTTPError | U3_PoolError | U3_RequestError | U3_TimeoutError
  | U3_ConnectTimeoutError | U3_NewConnectionError | U3_ProtocolError
  | U3_MaxRetryError | U3_ReadTimeoutError
  | RequestException | Rq_HTTPError | Rq_ConnectionError | Rq_ProxyError | Rq_SSLError
  | Rq_Timeout | Rq_ConnectTimeout | Rq_ReadTimeout | Rq_ChunkedEncodingError
  | Rq_ContentDecodingError | Rq_StreamConsumedError | Rq_InvalidURL
  | Rq_TooManyRedirects
  | ResponseStopIteration

text \<open>
  \<open>superclasses c\<close> lists every proper ancestor of \<open>c\<close>, following the class statements
  of the two libraries (for instance \<^verbatim>\<open>class ConnectTimeout(ConnectionError, Timeout)\<close>
  and \<^verbatim>\<open>class NewConnectionError(ConnectTimeoutError, PoolError)\<close>).
\<close>

definition exc :: "exn_class list" where
  "exc = [Exception, BaseException]"

definition u3 :: "exn_class list" where
  "u3 = U3_HTTPError # exc"

definition rq :: "exn_class list" where
  "rq = RequestException # OSError # exc"

fun superclasses :: "exn_class \<Rightarrow> exn_class list" where
  "superclasses BaseException = []"
| "superclasses Exception = [BaseException]"
| "superclasses Cancelled = [BaseException]"
| "superclasses AttributeError = exc"
| "superclasses TypeError = exc"
| "superclasses ValueError = exc"
| "superclasses OSError = exc"
| "superclasses U3_HTTPError = exc"
| "superclasses U3_PoolError = u3"
| "superclasses U3_RequestError = U3_PoolError # u3"
| "superclasses U3_TimeoutError = u3"
| "superclasses U3_ConnectTimeoutError = U3_TimeoutError # u3"
| "superclasses U3_NewConnectionError =
     U3_ConnectTimeoutError # U3_TimeoutError # U3_PoolError # u3"
| "superclasses U3_ProtocolError = u3"
| "superclasses U3_MaxRetryError = U3_RequestError # U3_PoolError # u3"
| "superclasses U3_ReadTimeoutError =
     U3_TimeoutError # U3_RequestError # U3_PoolError # u3"
| "superclasses RequestException = OSError # exc"
| "superclasses Rq_HTTPError = rq"
| "superclasses Rq_ConnectionError = rq"
| "superclasses Rq_ProxyError = Rq_ConnectionError # rq"
| "superclasses Rq_SSLError = Rq_ConnectionError # rq"
| "superclasses Rq_Timeout = rq"
| "superclasses Rq_ConnectTimeout = Rq_ConnectionError # Rq_Timeout # rq"
| "superclasses Rq_ReadTimeout = Rq_Timeout # rq"
| "superclasses Rq_ChunkedEncodingError = rq"
| "superclasses Rq_ContentDecodingError = U3_HTTPError # rq"
| "superclasses Rq_StreamConsumedError = TypeError # rq"
| "superclasses Rq_InvalidURL = ValueError # rq"
| "superclasses Rq_TooManyRedirects = rq"
| "superclasses ResponseStopIteration = exc"

definition issubclass :: "exn_class \<Rightarrow> exn_class \<Rightarrow> bool" where
  "issubclass c d = (c = d \<or> d \<in> set (superclasses c))"

text \<open>
  An exception object has its class and its \<^verbatim>\<open>args\<close> tuple; an argument is a text or
  another exception (requests wraps the urllib3 error it caught as \<^verbatim>\<open>args[0]\<close>).
\<close>

datatype exn = Exn (cls: exn_class) (args: "exn_arg list")
  and exn_arg = ArgText string | ArgExn exn

definition isinstance :: "exn \<Rightarrow> exn_class \<Rightarrow> bool" where
  "isinstance e c = issubclass (cls e) c"

fun arg_isinstance :: "exn_arg \<Rightarrow> exn_class \<Rightarrow> bool" where
  "arg_isinstance (ArgText s) c = False"
| "arg_isinstance (ArgExn e) c = isinstance e c"

section \<open>Requests, connection configuration and the blocking call\<close>

record request =
  req_method :: string
  url :: string
  headers :: kwargs
  data :: pyval
  files :: pyval

record connection_config =
  verify :: pyval
  timeout :: pyval
  cert :: pyval
  data_block_size :: int

text \<open>
  The arguments \<^verbatim>\<open>functools.partial\<close> binds to \<^verbatim>\<open>self.session.request\<close>: the two
  positional ones, the eight named ones, and whatever is left in \<^verbatim>\<open>kwargs\<close>.
\<close>

record call =
  c_method :: string
  c_url :: string
  c_headers :: kwargs
  c_data :: pyval
  c_files :: pyval
  c_verify :: pyval
  c_timeout :: pyval
  c_cert :: pyval
  c_allow_redirects :: bool
  c_hooks :: pyval
  c_extra :: kwargs

text \<open>
  What the blocking library hands back for a response: the status, the header table as
  its \<^verbatim>\<open>get\<close> reads it, and the two chunk readers a download can pull from
  (\<^verbatim>\<open>iter_content(block_size)\<close>, which decodes, and \<^verbatim>\<open>_read_raw_stream\<close>, which does
  not). A reader is given by the outcome of each successive call of
  \<^verbatim>\<open>_iterate_response_content\<close> on it: an exception or a chunk.
\<close>

type_synonym reader = "nat \<Rightarrow> exn + pyval"

record raw_response =
  status_code :: int
  resp_headers :: "string \<Rightarrow> string option"
  iter_content :: "int \<Rightarrow> reader"
  read_raw_stream :: "int \<Rightarrow> reader"

text \<open>
  The surroundings of the transport. The scheduling runtime offers the current dispatch
  primitive \<^verbatim>\<open>trio.to_thread.run_sync\<close>, the older
  \<^verbatim>\<open>trio.run_sync_in_worker_thread\<close>, both or neither. \<open>session_request n c\<close> is the
  outcome of the blocking call \<open>c\<close> when it is the \<open>n\<close>-th blocking call of this
  \<^verbatim>\<open>send\<close>. The helpers \<^verbatim>\<open>_get_request_hooks\<close>, \<^verbatim>\<open>_retrieve_request_data\<close> and the
  built-in \<^verbatim>\<open>int\<close> on a header text are defined outside this module and are taken as
  they come.
\<close>

record env =
  to_thread_present :: bool
  worker_thread_present :: bool
  session_request :: "nat \<Rightarrow> call \<Rightarrow> exn + raw_response"
  get_request_hooks :: "pyval \<Rightarrow> pyval"
  retrieve_request_data :: "request \<Rightarrow> pyval"
  py_int :: "string \<Rightarrow> int option"

datatype primitive = ToThreadRunSync | RunSyncInWorkerThread

text \<open>One worker dispatch: the primitive used, its \<^verbatim>\<open>limiter\<close> and the call it runs.\<close>

type_synonym dispatch = "primitive \<times> pyval \<times> call"

section \<open>TrioRequestsTransport.send\<close>

text \<open>
  The names \<^verbatim>\<open>functools.partial\<close> is given explicitly. A key of \<^verbatim>\<open>kwargs\<close> that
  repeats one of them makes the call expression raise \<^verbatim>\<open>TypeError\<close> (multiple values
  for a keyword argument).
\<close>

definition named_keywords :: "string list" where
  "named_keywords =
     [''headers'', ''data'', ''files'', ''verify'', ''timeout'', ''cert'',
      ''allow_redirects'', ''hooks'']"

text \<open>
  Evaluating the argument list of \<^verbatim>\<open>functools.partial\<close> (lines 157-169 and 173-185):
  the four pops run in source order and change \<^verbatim>\<open>kwargs\<close>, which is expanded last.
  The first component is \<^verbatim>\<open>kwargs\<close> afterwards.
\<close>

definition partial_request ::
  "env \<Rightarrow> connection_config \<Rightarrow> request \<Rightarrow> pyval \<Rightarrow> kwargs \<Rightarrow> kwargs \<times> (exn + call)" where
  "partial_request env cfg req body kw =
     (let (v, kw1) = pop kw ''connection_verify'' (verify cfg);
          (t, kw2) = pop kw1 ''connection_timeout'' (timeout cfg);
          (c, kw3) = pop kw2 ''connection_cert'' (cert cfg);
          (h, kw4) = pop kw3 ''hooks'' PNone
      in (kw4,
          if \<exists>k \<in> set named_keywords. map_of kw4 k \<noteq> None
          then Inl (Exn TypeError [ArgText ''got multiple values for keyword argument''])
          else Inr \<lparr>c_method = req_method req, c_url = url req, c_headers = headers req,
                    c_data = body, c_files = files req, c_verify = v, c_timeout = t,
                    c_cert = c, c_allow_redirects = False,
                    c_hooks = get_request_hooks env h, c_extra = kw4\<rparr>))"

text \<open>
  The handler of line 171: the older primitive, with \<^verbatim>\<open>data=request.data\<close>. Looking
  the primitive up raises \<^verbatim>\<open>AttributeError\<close> when the runtime does not have it.
  \<open>n\<close> counts the blocking calls made before.
\<close>

definition fallback ::
  "env \<Rightarrow> connection_config \<Rightarrow> request \<Rightarrow> pyval \<Rightarrow> kwargs \<Rightarrow> nat
     \<Rightarrow> dispatch list \<times> (exn + raw_response)" where
  "fallback env cfg req limiter kw n =
     (if \<not> worker_thread_present env
      then ([], Inl (Exn AttributeError [ArgText ''run_sync_in_worker_thread'']))
      else case partial_request env cfg req (data req) kw of
             (kw', Inl e) \<Rightarrow> ([], Inl e)
           | (kw', Inr c) \<Rightarrow>
               ([(RunSyncInWorkerThread, limiter, c)], session_request env n c))"

text \<open>
  The inner \<^verbatim>\<open>try\<close> of lines 155-186. The callee \<^verbatim>\<open>trio.to_thread.run_sync\<close> is
  looked up before its arguments are evaluated, so a runtime without it reaches the
  handler with \<^verbatim>\<open>kwargs\<close> untouched. Any other \<^verbatim>\<open>AttributeError\<close> of the body, the
  blocking call's included, reaches the same handler with \<^verbatim>\<open>kwargs\<close> already popped.
  The result is the list of worker dispatches, in order, and what leaves the block.
\<close>

definition dispatch_request ::
  "env \<Rightarrow> connection_config \<Rightarrow> request \<Rightarrow> kwargs \<Rightarrow> dispatch list \<times> (exn + raw_response)" where
  "dispatch_request env cfg req kw =
     (let trio_limiter = get kw ''trio_limiter'' PNone;
          data_to_send = retrieve_request_data env req
      in if \<not> to_thread_present env then fallback env cfg req trio_limiter kw 0
         else case partial_request env cfg req data_to_send kw of
                (kw', Inl e) \<Rightarrow>
                  if isinstance e AttributeError
                  then fallback env cfg req trio_limiter kw' 0
                  else ([], Inl e)
              | (kw', Inr c) \<Rightarrow>
                  (case session_request env 0 c of
                     Inr r \<Rightarrow> ([(ToThreadRunSync, trio_limiter, c)], Inr r)
                   | Inl e \<Rightarrow>
                       if isinstance e AttributeError
                       then (case fallback env cfg req trio_limiter kw' 1 of
                               (ds, out) \<Rightarrow> ((ToThreadRunSync, trio_limiter, c) # ds, out))
                       else ([(ToThreadRunSync, trio_limiter, c)], Inl e)))"

text \<open>
  What \<^verbatim>\<open>send\<close> raises: one of the three errors of \<^verbatim>\<open>azure.core.exceptions\<close>, built
  as \<^verbatim>\<open>Error(err, error=err)\<close> and so carrying the exception it was made from, or an
  exception no handler took, which leaves \<^verbatim>\<open>send\<close> as it is.
\<close>

datatype raised =
    ServiceRequestError exn
  | ServiceResponseError exn
  | IncompleteReadError exn
  | Propagated exn

text \<open>The handlers of lines 188-200, in source order.\<close>

definition translate :: "exn \<Rightarrow> raised" where
  "translate err =
     (if isinstance err U3_NewConnectionError then ServiceRequestError err
      else if isinstance err Rq_ReadTimeout then ServiceResponseError err
      else if isinstance err Rq_ConnectionError then
        (if args err \<noteq> [] \<and> arg_isinstance (hd (args err)) U3_ProtocolError
         then ServiceResponseError err
         else ServiceRequestError err)
      else if isinstance err Rq_ChunkedEncodingError then IncompleteReadError err
      else if isinstance err RequestException then ServiceRequestError err
      else Propagated err)"

text \<open>
  The response object of line 205. Its class takes its constructor from
  \<^verbatim>\<open>RequestsTransportResponse\<close>, outside this module: it keeps the request, the
  internal response and the block size, and its \<^verbatim>\<open>headers\<close> are those of the
  internal response.
\<close>

record transport_response =
  tr_request :: request
  internal_response :: raw_response
  tr_block_size :: int
  tr_headers :: "string \<Rightarrow> string option"

text \<open>
  \<^verbatim>\<open>send\<close>: the worker dispatches it made, and the error it raises or the response it
  returns. \<^verbatim>\<open>self.open()\<close> only makes sure the session exists whose \<^verbatim>\<open>request\<close>
  function \<open>session_request\<close> stands for, and an error object always reads as true at
  line 202.
\<close>

definition send ::
  "env \<Rightarrow> connection_config \<Rightarrow> request \<Rightarrow> kwargs \<Rightarrow> dispatch list \<times> (raised + transport_response)" where
  "send env cfg req kw =
     (case dispatch_request env cfg req kw of
        (ds, Inl err) \<Rightarrow> (ds, Inl (translate err))
      | (ds, Inr r) \<Rightarrow>
          (ds, Inr \<lparr>tr_request = req, internal_response = r,
                    tr_block_size = data_block_size cfg,
                    tr_headers = resp_headers r\<rparr>))"

section \<open>TrioStreamDownloadGenerator\<close>

text \<open>
  The generator object: the fields \<^verbatim>\<open>__init__\<close> sets, the number of pulls already made
  on \<^verbatim>\<open>iter_content_func\<close> (the reader's position), and whether the internal response
  has been closed.
\<close>

record generator =
  pipeline :: pyval
  g_request :: request
  response :: transport_response
  block_size :: int
  iter_content_func :: reader
  content_length :: int
  pulls :: nat
  closed :: bool

text \<open>
  \<^verbatim>\<open>__init__\<close> (lines 62-75). It raises \<^verbatim>\<open>TypeError\<close> on a keyword other than
  \<^verbatim>\<open>decompress\<close>, and \<^verbatim>\<open>ValueError\<close> when \<^verbatim>\<open>int\<close> cannot read the header.
  \<^verbatim>\<open>_get_block_size\<close> and \<^verbatim>\<open>_get_internal_response\<close> read the two fields of the
  response object.
\<close>

definition init_generator ::
  "env \<Rightarrow> pyval \<Rightarrow> transport_response \<Rightarrow> kwargs \<Rightarrow> exn + generator" where
  "init_generator env pl resp kw =
     (let bs = tr_block_size resp;
          (decompress, kw1) = pop kw ''decompress'' (PBool True)
      in if length kw1 > 0
         then Inl (Exn TypeError
                [ArgText (''Got an unexpected keyword argument: '' @ fst (hd kw1))])
         else
           (let ir = internal_response resp;
                f = (if truthy decompress then iter_content ir bs
                     else read_raw_stream ir bs);
                mk = (\<lambda>n. \<lparr>pipeline = pl, g_request = tr_request resp, response = resp,
                            block_size = bs, iter_content_func = f, content_length = n,
                            pulls = 0, closed = False\<rparr>)
            in case tr_headers resp ''Content-Length'' of
                 None \<Rightarrow> Inr (mk 0)
               | Some s \<Rightarrow>
                   (case py_int env s of
                      None \<Rightarrow> Inl (Exn ValueError [ArgText ''invalid literal for int()''])
                    | Some n \<Rightarrow> Inr (mk n))))"

text \<open>\<^verbatim>\<open>TrioRequestsTransportResponse.stream_download\<close> (line 112).\<close>

definition stream_download ::
  "env \<Rightarrow> transport_response \<Rightarrow> pyval \<Rightarrow> kwargs \<Rightarrow> exn + generator" where
  "stream_download env resp pl kw = init_generator env pl resp kw"

text \<open>\<^verbatim>\<open>__len__\<close> (line 78).\<close>

definition len :: "generator \<Rightarrow> int" where
  "len g = content_length g"

text \<open>
  One run of \<^verbatim>\<open>_iterate_response_content(self.iter_content_func)\<close> in a worker thread:
  the reader moves on by one and gives its outcome.
\<close>

definition thread_pull :: "generator \<Rightarrow> generator \<times> (exn + pyval)" where
  "thread_pull g = (g\<lparr>pulls := Suc (pulls g)\<rparr>, iter_content_func g (pulls g))"

text \<open>The handler of line 88: the same pull through the older primitive.\<close>

definition pull_fallback :: "env \<Rightarrow> generator \<Rightarrow> generator \<times> (exn + pyval)" where
  "pull_fallback env g =
     (if \<not> worker_thread_present env
      then (g, Inl (Exn AttributeError [ArgText ''run_sync_in_worker_thread'']))
      else thread_pull g)"

text \<open>
  The inner \<^verbatim>\<open>try\<close> of lines 83-92. As in \<^verbatim>\<open>send\<close>, its handler takes the missing
  primitive and equally an \<^verbatim>\<open>AttributeError\<close> that the pull itself raised.
\<close>

definition dispatch_pull :: "env \<Rightarrow> generator \<Rightarrow> generator \<times> (exn + pyval)" where
  "dispatch_pull env g =
     (if \<not> to_thread_present env then pull_fallback env g
      else case thread_pull g of
             (g1, Inr chunk) \<Rightarrow> (g1, Inr chunk)
           | (g1, Inl e) \<Rightarrow>
               if isinstance e AttributeError then pull_fallback env g1
               else (g1, Inl e))"

text \<open>
  What a pull does besides moving the reader, in the order it does it, and how it ends:
  with a chunk, with \<^verbatim>\<open>StopAsyncIteration\<close> (the regular end of an asynchronous
  iteration) or with an exception.
\<close>

datatype effect = LogWarning exn | CloseResponse

datatype pull_result = Chunk pyval | StopAsyncIteration | Raised exn

text \<open>\<^verbatim>\<open>__anext__\<close> (lines 80-104), the handlers in source order.\<close>

definition anext :: "env \<Rightarrow> generator \<Rightarrow> generator \<times> effect list \<times> pull_result" where
  "anext env g =
     (case dispatch_pull env g of (g1, out) \<Rightarrow>
        (case (case out of
                 Inl e \<Rightarrow> Inl e
               | Inr chunk \<Rightarrow>
                   if \<not> truthy chunk then Inl (Exn ResponseStopIteration [])
                   else Inr chunk) of
           Inr chunk \<Rightarrow> (g1, [], Chunk chunk)
         | Inl e \<Rightarrow>
             if isinstance e ResponseStopIteration
             then (g1\<lparr>closed := True\<rparr>, [CloseResponse], StopAsyncIteration)
             else if isinstance e Rq_StreamConsumedError
             then (g1, [], Raised e)
             else if isinstance e Exception
             then (g1\<lparr>closed := True\<rparr>, [LogWarning e, CloseResponse], Raised e)
             else (g1, [], Raised e)))"

text \<open>\<open>consume env n g\<close>: the generator after \<open>n\<close> pulls, however each of them ended.\<close>

fun consume :: "env \<Rightarrow> nat \<Rightarrow> generator \<Rightarrow> generator" where
  "consume env 0 g = g"
| "consume env (Suc n) g = consume env n (fst (anext env g))"

section \<open>Example surroundings\<close>

text \<open>
  Modelled from the spec: \<^verbatim>\<open>_retrieve_request_data\<close> of the asynchronous base
  transport is not among the sources. The spec says that \<^verbatim>\<open>send\<close> "serializes the
  outbound body if needed": an asynchronous body, which the blocking library cannot
  read, is collected into a plain sequence of its parts, and any other body is passed
  on as it is.
\<close>

definition collect_body :: "request \<Rightarrow> pyval" where
  "collect_body req = (case data req of PAsyncIter ps \<Rightarrow> PIter ps | d \<Rightarrow> d)"

text \<open>
  An instance of the built-in \<^verbatim>\<open>int\<close> for the header texts of the examples: a
  non-empty run of decimal digits is read as its value.
\<close>

fun digits_value :: "string \<Rightarrow> nat \<Rightarrow> nat option" where
  "digits_value [] acc = Some acc"
| "digits_value (c # cs) acc =
     (if 48 \<le> (of_char c :: nat) \<and> (of_char c :: nat) \<le> 57
      then digits_value cs (10 * acc + (of_char c - 48))
      else None)"

definition decimal_int :: "string \<Rightarrow> int option" where
  "decimal_int s = (if s = [] then None else map_option int (digits_value s 0))"

text \<open>
  \<open>ex_env cur old out\<close>: a runtime with the current primitive iff \<open>cur\<close> and the older
  one iff \<open>old\<close>, and a session whose \<open>n\<close>-th blocking call has outcome \<open>out n\<close>.
  \<open>ex_failing e\<close> is a current runtime whose blocking call raises \<open>e\<close>.
\<close>

definition ex_env :: "bool \<Rightarrow> bool \<Rightarrow> (nat \<Rightarrow> exn + raw_response) \<Rightarrow> env" where
  "ex_env cur old out =
     \<lparr>to_thread_present = cur, worker_thread_present = old,
      session_request = (\<lambda>n c. out n), get_request_hooks = (\<lambda>h. h),
      retrieve_request_data = collect_body, py_int = decimal_int\<rparr>"

definition ex_failing :: "exn \<Rightarrow> env" where
  "ex_failing e = ex_env True False (\<lambda>n. Inl e)"

definition ex_cfg :: connection_config where
  "ex_cfg = \<lparr>verify = PBool True, timeout = PInt 100, cert = PNone,
             data_block_size = 4096\<rparr>"

definition ex_req :: "pyval \<Rightarrow> request" where
  "ex_req body =
     \<lparr>req_method = ''PUT'', url = ''https://example.org/item'', headers = [],
      data = body, files = PNone\<rparr>"

text \<open>
  A response with status 200 whose header table holds \<open>hs\<close> and whose two readers both
  follow \<open>rd\<close>.
\<close>

definition ex_raw :: "(string \<times> string) list \<Rightarrow> reader \<Rightarrow> raw_response" where
  "ex_raw hs rd =
     \<lparr>status_code = 200, resp_headers = map_of hs,
      iter_content = (\<lambda>bs. rd), read_raw_stream = (\<lambda>bs. rd)\<rparr>"

definition ex_response :: "(string \<times> string) list \<Rightarrow> reader \<Rightarrow> transport_response" where
  "ex_response hs rd =
     \<lparr>tr_request = ex_req PNone, internal_response = ex_raw hs rd, tr_block_size = 4,
      tr_headers = map_of hs\<rparr>"

text \<open>
  The generator \<^verbatim>\<open>stream_download\<close> makes for that response when the header table
  declares the length \<open>n\<close>, before its first pull.
\<close>

definition ex_gen :: "(string \<times> string) list \<Rightarrow> int \<Rightarrow> reader \<Rightarrow> generator" where
  "ex_gen hs n rd =
     \<lparr>pipeline = PObj 0, g_request = ex_req PNone, response = ex_response hs rd,
      block_size = 4, iter_content_func = rd, content_length = n, pulls = 0,
      closed = False\<rparr>"

text \<open>A session whose blocking call always returns an empty response.\<close>

definition ex_ok :: "nat \<Rightarrow> exn + raw_response" where
  "ex_ok n = Inr (ex_raw [] (\<lambda>k. Inl (Exn ResponseStopIteration [])))"

text \<open>A reader over the chunks \<open>cs\<close>, exhausted afterwards.\<close>

definition chunks_reader :: "string list \<Rightarrow> reader" where
  "chunks_reader cs n =
     (if n < length cs then Inr (PBytes (cs ! n)) else Inl (Exn ResponseStopIteration []))"

section \<open>Facts about classes and keyword options\<close>

lemmas class_defs = isinstance_def issubclass_def exc_def u3_def rq_def

lemmas ex_defs = ex_failing_def ex_env_def ex_cfg_def ex_req_def collect_body_def
  named_keywords_def pop_def get_def

text \<open>
  The handlers of \<^verbatim>\<open>send\<close> are tried in order, so a clause is reached only by an
  exception no earlier clause takes. In the two libraries no read timeout is a
  new-connection error, and so on down the list.
\<close>

lemma read_timeout_not_new_connection:
  "isinstance err Rq_ReadTimeout \<Longrightarrow> \<not> isinstance err U3_NewConnectionError"
  by (cases "cls err") (simp_all add: class_defs)


lemma chunked_not_earlier:
  "isinstance err Rq_ChunkedEncodingError \<Longrightarrow>
     \<not> isinstance err U3_NewConnectionError \<and> \<not> isinstance err Rq_ReadTimeout
     \<and> \<not> isinstance err Rq_ConnectionError"
  by (cases "cls err") (simp_all add: class_defs)

lemma stream_consumed_not_stop:
  "isinstance err Rq_StreamConsumedError \<Longrightarrow> \<not> isinstance err ResponseStopIteration"
  by (cases "cls err") (simp_all add: class_defs)

lemma map_of_kept:
  "k \<noteq> a \<Longrightarrow> k \<noteq> b \<Longrightarrow> k \<noteq> c \<Longrightarrow> k \<noteq> d \<Longrightarrow>
   map_of (filter (\<lambda>p. fst p \<noteq> a \<and> fst p \<noteq> b \<and> fst p \<noteq> c \<and> fst p \<noteq> d) kw) k
     = map_of kw k"
  by (induction kw) auto

lemma map_of_dropped:
  "map_of kw k = None \<Longrightarrow> map_of (filter P kw) k = None"
  by (induction kw) (auto split: if_splits)

text \<open>What the four pops leave of \<^verbatim>\<open>kwargs\<close>, and that the call gets exactly that.\<close>

lemma partial_request_extra:
  assumes "partial_request env cfg req body kw = (kw', out)"
  shows "kw' = filter (\<lambda>p. fst p \<notin> {''connection_verify'', ''connection_timeout'',
            ''connection_cert'', ''hooks''}) kw"
    and "\<And>c. out = Inr c \<Longrightarrow> c_extra c = kw'"
  using assms by (auto simp add: partial_request_def pop_def split: if_splits)

lemma partial_request_limiter:
  assumes "partial_request env cfg req body kw = (kw', out)"
  shows "map_of kw' ''trio_limiter'' = map_of kw ''trio_limiter''"
  using partial_request_extra(1) [OF assms] by (simp add: map_of_kept)

lemma partial_request_no_clash:
  assumes "\<forall>k \<in> set named_keywords. map_of kw k = None"
  shows "\<exists>c. partial_request env cfg req body kw =
           (filter (\<lambda>p. fst p \<notin> {''connection_verify'', ''connection_timeout'',
              ''connection_cert'', ''hooks''}) kw, Inr c)"
proof -
  obtain kw' out where p: "partial_request env cfg req body kw = (kw', out)"
    by (cases "partial_request env cfg req body kw")
  have kw': "kw' = filter (\<lambda>p. fst p \<notin> {''connection_verify'', ''connection_timeout'',
            ''connection_cert'', ''hooks''}) kw"
    using partial_request_extra(1) [OF p] .
  have "\<forall>k \<in> set named_keywords. map_of kw' k = None"
    using assms unfolding kw' by (simp add: map_of_dropped)
  then have "\<exists>c. out = Inr c"
    using p by (auto simp add: partial_request_def pop_def Let_def split: prod.splits if_splits)
  with p kw' show ?thesis by auto
qed

text \<open>The body is the only argument of the call that \<open>partial_request\<close> takes from outside.\<close>

lemma partial_request_body:
  assumes "partial_request env cfg req b kw = (kw', Inr c)"
  shows "partial_request env cfg req b' kw = (kw', Inr (c\<lparr>c_data := b'\<rparr>))"
  using assms
  by (auto simp add: partial_request_def pop_def Let_def split: prod.splits if_splits)

lemma fallback_dispatches:
  assumes "fallback env cfg req lim kw n = (ds, out)" and "d \<in> set ds"
  shows "fst (snd d) = lim
         \<and> c_extra (snd (snd d)) = fst (partial_request env cfg req (data req) kw)"
  using assms
  by (auto simp add: fallback_def partial_request_extra split: if_splits prod.splits sum.splits)

section \<open>The dispatch block of send\<close>

text \<open>
  On a runtime with the current primitive, an outcome of the blocking call other than an
  \<^verbatim>\<open>AttributeError\<close> is the outcome of the block, after one dispatch.
\<close>

lemma dispatch_request_current:
  assumes "to_thread_present env"
    and "partial_request env cfg req (retrieve_request_data env req) kw = (kw', Inr c)"
    and "\<forall>e. session_request env 0 c = Inl e \<longrightarrow> \<not> isinstance e AttributeError"
  shows "dispatch_request env cfg req kw =
     ([(ToThreadRunSync, get kw ''trio_limiter'' PNone, c)], session_request env 0 c)"
  using assms by (auto simp add: dispatch_request_def Let_def split: sum.splits)

text \<open>
  On a runtime with the older primitive only, the block makes the one dispatch of its
  handler: the same call but for \<^verbatim>\<open>data\<close>, which is \<^verbatim>\<open>request.data\<close>.
\<close>

lemma dispatch_request_older:
  assumes "\<not> to_thread_present env" and "worker_thread_present env"
    and "partial_request env cfg req (retrieve_request_data env req) kw = (kw', Inr c)"
  shows "dispatch_request env cfg req kw =
     ([(RunSyncInWorkerThread, get kw ''trio_limiter'' PNone, c\<lparr>c_data := data req\<rparr>)],
      session_request env 0 (c\<lparr>c_data := data req\<rparr>))"
  using assms partial_request_body [OF assms(3), of "data req"]
  by (simp add: dispatch_request_def fallback_def Let_def)

lemma failing_dispatch:
  "\<not> isinstance e AttributeError \<Longrightarrow>
   snd (dispatch_request (ex_failing e) ex_cfg (ex_req PNone) []) = Inl e"
  by (simp add: dispatch_request_def partial_request_def ex_defs)

lemma failing_dispatch_pair:
  "\<not> isinstance e AttributeError \<Longrightarrow>
   dispatch_request (ex_failing e) ex_cfg (ex_req PNone) [] =
     (fst (dispatch_request (ex_failing e) ex_cfg (ex_req PNone) []), Inl e)"
  using failing_dispatch [of e] by (metis prod.collapse)

section \<open>Error translation in send\<close>

text \<open>
  Claim C1, as the code has it. The claim says that an exception of the blocking call
  which is none of the recognised kinds (new-connection failure, read timeout,
  connection error, chunked-encoding error) propagates as a wrapper of the
  ResponseFailure class. The code has one more clause, for \<^verbatim>\<open>RequestException\<close>
  (line 199), and it builds a \<^verbatim>\<open>ServiceRequestError\<close>. So: whenever an exception
  that is none of the four recognised kinds leaves the dispatch block, \<^verbatim>\<open>send\<close>
  fails, it never returns a response; if the exception is a \<^verbatim>\<open>RequestException\<close>
  of the blocking library, \<^verbatim>\<open>send\<close> raises \<^verbatim>\<open>ServiceRequestError\<close> built from it
  and carrying it as its cause, and otherwise the exception leaves \<^verbatim>\<open>send\<close>
  unchanged, not wrapped.
\<close>

theorem send_unrecognised:
  assumes "dispatch_request env cfg req kw = (ds, Inl err)"
    and "\<not> isinstance err U3_NewConnectionError"
    and "\<not> isinstance err Rq_ReadTimeout"
    and "\<not> isinstance err Rq_ConnectionError"
    and "\<not> isinstance err Rq_ChunkedEncodingError"
  shows "send env cfg req kw =
     (ds, Inl (if isinstance err RequestException then ServiceRequestError err
               else Propagated err))"
  using assms by (simp add: send_def translate_def)

text \<open>
  An invalid URL reported by the blocking library is such an exception: it comes back
  as \<^verbatim>\<open>ServiceRequestError\<close>.
\<close>

theorem send_unrecognised_witness:
  "snd (dispatch_request (ex_failing (Exn Rq_InvalidURL [])) ex_cfg (ex_req PNone) []) =
     Inl (Exn Rq_InvalidURL [])
   \<and> \<not> isinstance (Exn Rq_InvalidURL []) U3_NewConnectionError
   \<and> \<not> isinstance (Exn Rq_InvalidURL []) Rq_ReadTimeout
   \<and> \<not> isinstance (Exn Rq_InvalidURL []) Rq_ConnectionError
   \<and> \<not> isinstance (Exn Rq_InvalidURL []) Rq_ChunkedEncodingError
   \<and> snd (send (ex_failing (Exn Rq_InvalidURL [])) ex_cfg (ex_req PNone) []) =
       Inl (ServiceRequestError (Exn Rq_InvalidURL []))"
proof -
  let ?e = "Exn Rq_InvalidURL []"
  have c: "\<not> isinstance ?e U3_NewConnectionError" "\<not> isinstance ?e Rq_ReadTimeout"
    "\<not> isinstance ?e Rq_ConnectionError" "\<not> isinstance ?e Rq_ChunkedEncodingError"
    "isinstance ?e RequestException" "\<not> isinstance ?e AttributeError"
    by (simp_all add: class_defs)
  from send_unrecognised [OF failing_dispatch_pair [OF c(6)] c(1-4)] c
    failing_dispatch [OF c(6)]
  show ?thesis by simp
qed

text \<open>
  The claim as it was stated fails where the blocking call gives up after too many
  redirects: none of the four recognised kinds, and \<^verbatim>\<open>send\<close> does not raise the
  ResponseFailure wrapper \<^verbatim>\<open>ServiceResponseError\<close>.
\<close>

theorem send_unrecognised_counterexample:
  "snd (dispatch_request (ex_failing (Exn Rq_TooManyRedirects [])) ex_cfg (ex_req PNone) []) =
     Inl (Exn Rq_TooManyRedirects [])
   \<and> \<not> isinstance (Exn Rq_TooManyRedirects []) U3_NewConnectionError
   \<and> \<not> isinstance (Exn Rq_TooManyRedirects []) Rq_ReadTimeout
   \<and> \<not> isinstance (Exn Rq_TooManyRedirects []) Rq_ConnectionError
   \<and> \<not> isinstance (Exn Rq_TooManyRedirects []) Rq_ChunkedEncodingError
   \<and> snd (send (ex_failing (Exn Rq_TooManyRedirects [])) ex_cfg (ex_req PNone) []) \<noteq>
       Inl (ServiceResponseError (Exn Rq_TooManyRedirects []))
   \<and> snd (send (ex_failing (Exn Rq_TooManyRedirects [])) ex_cfg (ex_req PNone) []) =
       Inl (ServiceRequestError (Exn Rq_TooManyRedirects []))"
  by (simp add: send_def translate_def dispatch_request_def partial_request_def ex_defs
      class_defs)




text \<open>
  Claim C4, as the code has it. The claim says that every read timeout after the
  connection was made gives \<^verbatim>\<open>ServiceResponseError\<close>. Here too the handlers go by
  the class of the exception: when the read timeout that leaves the dispatch block is
  reported as requests' \<^verbatim>\<open>ReadTimeout\<close> (the per-call timeout ran out while
  waiting for the response), \<^verbatim>\<open>send\<close> raises \<^verbatim>\<open>ServiceResponseError\<close>.
\<close>

theorem send_read_timeout:
  assumes "dispatch_request env cfg req kw = (ds, Inl err)"
    and "isinstance err Rq_ReadTimeout"
  shows "send env cfg req kw = (ds, Inl (ServiceResponseError err))"
  using assms read_timeout_not_new_connection [of err]
  by (simp add: send_def translate_def)

theorem send_read_timeout_witness:
  "snd (dispatch_request (ex_failing (Exn Rq_ReadTimeout [ArgText ''Read timed out.'']))
         ex_cfg (ex_req PNone) []) =
     Inl (Exn Rq_ReadTimeout [ArgText ''Read timed out.''])
   \<and> isinstance (Exn Rq_ReadTimeout [ArgText ''Read timed out.'']) Rq_ReadTimeout
   \<and> snd (send (ex_failing (Exn Rq_ReadTimeout [ArgText ''Read timed out.'']))
         ex_cfg (ex_req PNone) []) =
       Inl (ServiceResponseError (Exn Rq_ReadTimeout [ArgText ''Read timed out.'']))"
proof -
  let ?e = "Exn Rq_ReadTimeout [ArgText ''Read timed out.'']"
  have c: "isinstance ?e Rq_ReadTimeout" "\<not> isinstance ?e AttributeError"
    by (simp_all add: class_defs)
  from send_read_timeout [OF failing_dispatch_pair [OF c(2)] c(1)] c
    failing_dispatch [OF c(2)]
  show ?thesis by simp
qed

text \<open>
  The claim as it was stated fails for a read timeout while the body is being read
  inside the blocking call. The blocking library reports it as a \<^verbatim>\<open>ConnectionError\<close>
  around urllib3's \<^verbatim>\<open>ReadTimeoutError\<close>, which is not a \<^verbatim>\<open>ProtocolError\<close>, and
  the handler of lines 192-196 builds \<^verbatim>\<open>ServiceRequestError\<close>.
\<close>

theorem send_read_timeout_counterexample:
  "snd (dispatch_request
         (ex_failing (Exn Rq_ConnectionError [ArgExn (Exn U3_ReadTimeoutError [])]))
         ex_cfg (ex_req PNone) []) =
     Inl (Exn Rq_ConnectionError [ArgExn (Exn U3_ReadTimeoutError [])])
   \<and> snd (send (ex_failing (Exn Rq_ConnectionError [ArgExn (Exn U3_ReadTimeoutError [])]))
         ex_cfg (ex_req PNone) []) \<noteq>
       Inl (ServiceResponseError
             (Exn Rq_ConnectionError [ArgExn (Exn U3_ReadTimeoutError [])]))
   \<and> snd (send (ex_failing (Exn Rq_ConnectionError [ArgExn (Exn U3_ReadTimeoutError [])]))
         ex_cfg (ex_req PNone) []) =
       Inl (ServiceRequestError
             (Exn Rq_ConnectionError [ArgExn (Exn U3_ReadTimeoutError [])]))"
  by (simp add: send_def translate_def dispatch_request_def partial_request_def ex_defs
      class_defs)

text \<open>
  Claim C5. When the transfer is cut short and the blocking library reports it as a
  \<^verbatim>\<open>ChunkedEncodingError\<close>, \<^verbatim>\<open>send\<close> raises \<^verbatim>\<open>IncompleteReadError\<close>.
\<close>

theorem send_chunked_encoding:
  assumes "dispatch_request env cfg req kw = (ds, Inl err)"
    and "isinstance err Rq_ChunkedEncodingError"
  shows "send env cfg req kw = (ds, Inl (IncompleteReadError err))"
  using assms chunked_not_earlier [of err]
  by (simp add: send_def translate_def)

theorem send_chunked_encoding_witness:
  "snd (dispatch_request (ex_failing (Exn Rq_ChunkedEncodingError []))
         ex_cfg (ex_req PNone) []) =
     Inl (Exn Rq_ChunkedEncodingError [])
   \<and> isinstance (Exn Rq_ChunkedEncodingError []) Rq_ChunkedEncodingError
   \<and> snd (send (ex_failing (Exn Rq_ChunkedEncodingError [])) ex_cfg (ex_req PNone) []) =
       Inl (IncompleteReadError (Exn Rq_ChunkedEncodingError []))"
proof -
  let ?e = "Exn Rq_ChunkedEncodingError []"
  have c: "isinstance ?e Rq_ChunkedEncodingError" "\<not> isinstance ?e AttributeError"
    by (simp_all add: class_defs)
  from send_chunked_encoding [OF failing_dispatch_pair [OF c(2)] c(1)] c
    failing_dispatch [OF c(2)]
  show ?thesis by simp
qed

section \<open>What send dispatches\<close>

text \<open>
  Claim C10. When \<^verbatim>\<open>kwargs\<close> holds a \<^verbatim>\<open>trio_limiter\<close>, every worker dispatch of
  \<^verbatim>\<open>send\<close> is given that limiter, and the key is still in \<^verbatim>\<open>kwargs\<close> when it is
  expanded into the blocking call: \<^verbatim>\<open>kwargs.get\<close> of line 150 reads without
  removing, and none of the four pops takes it. Such a dispatch is made whenever the
  runtime has a dispatch primitive and \<^verbatim>\<open>kwargs\<close> repeats none of the named
  keywords.
\<close>

theorem send_forwards_trio_limiter:
  assumes "map_of kw ''trio_limiter'' = Some lim"
  shows "(\<forall>d \<in> set (fst (send env cfg req kw)).
            fst (snd d) = lim \<and> map_of (c_extra (snd (snd d))) ''trio_limiter'' = Some lim)
         \<and> ((to_thread_present env \<or> worker_thread_present env)
              \<and> (\<forall>k \<in> set named_keywords. map_of kw k = None)
            \<longrightarrow> fst (send env cfg req kw) \<noteq> [])"
proof (rule conjI)
  show "\<forall>d \<in> set (fst (send env cfg req kw)).
          fst (snd d) = lim \<and> map_of (c_extra (snd (snd d))) ''trio_limiter'' = Some lim"
  proof (rule ballI)
    fix d assume d: "d \<in> set (fst (send env cfg req kw))"
    have g: "get kw ''trio_limiter'' PNone = lim" using assms by (simp add: get_def)
    obtain kw1 o1 where p1:
      "partial_request env cfg req (retrieve_request_data env req) kw = (kw1, o1)"
      by (cases "partial_request env cfg req (retrieve_request_data env req) kw")
    have l1: "map_of kw1 ''trio_limiter'' = Some lim"
      using partial_request_limiter [OF p1] assms by simp
    have fb: "fst (snd d) = lim \<and> map_of (c_extra (snd (snd d))) ''trio_limiter'' = Some lim"
      if f: "fallback env cfg req lim kwx n = (ds, out)" and m: "d \<in> set ds"
        and k: "map_of kwx ''trio_limiter'' = Some lim" for kwx n ds out
    proof -
      obtain kw2 o2 where p2: "partial_request env cfg req (data req) kwx = (kw2, o2)"
        by (cases "partial_request env cfg req (data req) kwx")
      from fallback_dispatches [OF f m] p2 partial_request_limiter [OF p2] k
      show ?thesis by simp
    qed
    show "fst (snd d) = lim \<and> map_of (c_extra (snd (snd d))) ''trio_limiter'' = Some lim"
    proof (cases "to_thread_present env")
      case False
      obtain ds out where f: "fallback env cfg req lim kw 0 = (ds, out)"
        by (cases "fallback env cfg req lim kw 0")
      with d False g have "d \<in> set ds"
        by (simp add: send_def dispatch_request_def split: sum.splits)
      from fb [OF f this assms] show ?thesis .
    next
      case True
      obtain ds out where f: "fallback env cfg req lim kw1 1 = (ds, out)"
        by (cases "fallback env cfg req lim kw1 1")
      obtain ds0 out0 where f0: "fallback env cfg req lim kw1 0 = (ds0, out0)"
        by (cases "fallback env cfg req lim kw1 0")
      show ?thesis
      proof (cases o1)
        case (Inl e)
        with d True g p1 f0 have "d \<in> set ds0"
          by (auto simp add: send_def dispatch_request_def split: sum.splits if_splits)
        from fb [OF f0 this l1] show ?thesis .
      next
        case (Inr c)
        then have c: "c_extra c = kw1" using partial_request_extra(2) [OF p1] by simp
        from d True g p1 f Inr
        have "d = (ToThreadRunSync, lim, c) \<or> d \<in> set ds"
          by (auto simp add: send_def dispatch_request_def split: sum.splits if_splits)
        then show ?thesis
        proof
          assume "d = (ToThreadRunSync, lim, c)"
          with c l1 show ?thesis by simp
        next
          assume "d \<in> set ds"
          from fb [OF f this l1] show ?thesis .
        qed
      qed
    qed
  qed
next
  show "(to_thread_present env \<or> worker_thread_present env)
          \<and> (\<forall>k \<in> set named_keywords. map_of kw k = None)
        \<longrightarrow> fst (send env cfg req kw) \<noteq> []"
  proof (rule impI)
    assume a: "(to_thread_present env \<or> worker_thread_present env)
       \<and> (\<forall>k \<in> set named_keywords. map_of kw k = None)"
    then have nc: "\<forall>k \<in> set named_keywords. map_of kw k = None" by simp
    obtain c1 kw1 where p1:
      "partial_request env cfg req (retrieve_request_data env req) kw = (kw1, Inr c1)"
      using partial_request_no_clash [OF nc] by blast
    obtain c2 kw2 where p2: "partial_request env cfg req (data req) kw = (kw2, Inr c2)"
      using partial_request_no_clash [OF nc] by blast
    show "fst (send env cfg req kw) \<noteq> []"
    proof (cases "to_thread_present env")
      case True
      with p1 show ?thesis
        by (auto simp add: send_def dispatch_request_def Let_def
            split: sum.splits prod.splits if_splits)
    next
      case False
      with a have "worker_thread_present env" by simp
      with False p2 show ?thesis
        by (auto simp add: send_def dispatch_request_def fallback_def Let_def
            split: sum.splits prod.splits if_splits)
    qed
  qed
qed

text \<open>
  A call with a limiter and a per-call timeout on a current runtime: one dispatch, with
  that limiter, the timeout popped and the limiter left among the extra options.
\<close>

theorem send_forwards_trio_limiter_witness:
  "map_of [(''connection_timeout'', PInt 5), (''trio_limiter'', PObj 7)] ''trio_limiter''
     = Some (PObj 7)
   \<and> fst (send (ex_env True False ex_ok) ex_cfg (ex_req PNone)
        [(''connection_timeout'', PInt 5), (''trio_limiter'', PObj 7)]) =
      [(ToThreadRunSync, PObj 7,
        \<lparr>c_method = ''PUT'', c_url = ''https://example.org/item'', c_headers = [],
         c_data = PNone, c_files = PNone, c_verify = PBool True, c_timeout = PInt 5,
         c_cert = PNone, c_allow_redirects = False, c_hooks = PNone,
         c_extra = [(''trio_limiter'', PObj 7)]\<rparr>)]
   \<and> list_all (\<lambda>d. fst (snd d) = PObj 7
                  \<and> map_of (c_extra (snd (snd d))) ''trio_limiter'' = Some (PObj 7))
        (fst (send (ex_env True False ex_ok) ex_cfg (ex_req PNone)
           [(''connection_timeout'', PInt 5), (''trio_limiter'', PObj 7)]))"
proof -
  let ?kw = "[(''connection_timeout'', PInt 5), (''trio_limiter'', PObj 7)]"
  have h: "map_of ?kw ''trio_limiter'' = Some (PObj 7)" by simp
  have e: "fst (send (ex_env True False ex_ok) ex_cfg (ex_req PNone) ?kw) =
      [(ToThreadRunSync, PObj 7,
        \<lparr>c_method = ''PUT'', c_url = ''https://example.org/item'', c_headers = [],
         c_data = PNone, c_files = PNone, c_verify = PBool True, c_timeout = PInt 5,
         c_cert = PNone, c_allow_redirects = False, c_hooks = PNone,
         c_extra = [(''trio_limiter'', PObj 7)]\<rparr>)]"
    by (simp add: send_def dispatch_request_def partial_request_def ex_defs ex_ok_def)
  from send_forwards_trio_limiter [OF h, of "ex_env True False ex_ok" ex_cfg "ex_req PNone"]
  have "list_all (\<lambda>d. fst (snd d) = PObj 7
                  \<and> map_of (c_extra (snd (snd d))) ''trio_limiter'' = Some (PObj 7))
        (fst (send (ex_env True False ex_ok) ex_cfg (ex_req PNone) ?kw))"
    by (simp add: list_all_iff)
  with h e show ?thesis by simp
qed

text \<open>
  Claim C2. The claim says that the handler for a runtime without the current dispatch
  primitive issues the same blocking call as the main path. It does for the method,
  the URL, the headers and the options (\<open>dispatch_request_current\<close>,
  \<open>dispatch_request_older\<close>), but not for the body: the main path sends
  \<^verbatim>\<open>data_to_send\<close>, the body as \<^verbatim>\<open>_retrieve_request_data\<close> prepared it
  (line 162), and the handler sends \<^verbatim>\<open>request.data\<close> itself (line 178). For a
  request with an asynchronous body of two parts, the current runtime's call carries the
  collected parts and the older runtime's call carries the asynchronous body, which the
  blocking library cannot read; everything else in the two calls is the same.
\<close>

theorem send_fallback_body_differs:
  "fst (send (ex_env True False ex_ok) ex_cfg (ex_req (PAsyncIter [''ab'', ''cd''])) []) =
     [(ToThreadRunSync, PNone,
       \<lparr>c_method = ''PUT'', c_url = ''https://example.org/item'', c_headers = [],
        c_data = PIter [''ab'', ''cd''], c_files = PNone, c_verify = PBool True,
        c_timeout = PInt 100, c_cert = PNone, c_allow_redirects = False,
        c_hooks = PNone, c_extra = []\<rparr>)]
   \<and> fst (send (ex_env False True ex_ok) ex_cfg (ex_req (PAsyncIter [''ab'', ''cd''])) []) =
     [(RunSyncInWorkerThread, PNone,
       \<lparr>c_method = ''PUT'', c_url = ''https://example.org/item'', c_headers = [],
        c_data = PAsyncIter [''ab'', ''cd''], c_files = PNone, c_verify = PBool True,
        c_timeout = PInt 100, c_cert = PNone, c_allow_redirects = False,
        c_hooks = PNone, c_extra = []\<rparr>)]"
  by (simp add: send_def dispatch_request_def fallback_def partial_request_def ex_defs
      ex_ok_def)

section \<open>Pulling from the download generator\<close>

lemmas pull_defs = dispatch_pull_def pull_fallback_def thread_pull_def

lemmas gen_defs = ex_gen_def ex_response_def ex_raw_def ex_req_def ex_env_def

text \<open>A pull moves the reader and touches neither the declared length nor the connection.\<close>

lemma dispatch_pull_keeps:
  assumes "dispatch_pull env g = (g1, out)"
  shows "content_length g1 = content_length g \<and> closed g1 = closed g"
  using assms by (auto simp add: pull_defs split: if_splits sum.splits)

text \<open>
  On a runtime with the current primitive, an outcome of the reader other than an
  \<^verbatim>\<open>AttributeError\<close> is the outcome of the dispatch; so is every outcome on a
  runtime that has the older primitive only.
\<close>

lemma dispatch_pull_current:
  assumes "to_thread_present env"
    and "\<forall>e. iter_content_func g (pulls g) = Inl e \<longrightarrow> \<not> isinstance e AttributeError"
  shows "dispatch_pull env g = (g\<lparr>pulls := Suc (pulls g)\<rparr>, iter_content_func g (pulls g))"
  using assms by (auto simp add: pull_defs split: sum.splits)

lemma dispatch_pull_older:
  assumes "\<not> to_thread_present env" and "worker_thread_present env"
  shows "dispatch_pull env g = (g\<lparr>pulls := Suc (pulls g)\<rparr>, iter_content_func g (pulls g))"
  using assms by (simp add: pull_defs)

text \<open>
  An \<^verbatim>\<open>AttributeError\<close> that the reader raises under the current primitive is taken
  by the handler of line 88 like a missing primitive: where the older primitive exists
  the reader is pulled a second time, and where it does not the dispatch ends with the
  \<^verbatim>\<open>AttributeError\<close> of the failed lookup.
\<close>

lemma dispatch_pull_retries:
  assumes "to_thread_present env"
    and "iter_content_func g (pulls g) = Inl e" and "isinstance e AttributeError"
  shows "dispatch_pull env g =
     (if worker_thread_present env
      then (g\<lparr>pulls := Suc (Suc (pulls g))\<rparr>, iter_content_func g (Suc (pulls g)))
      else (g\<lparr>pulls := Suc (pulls g)\<rparr>,
            Inl (Exn AttributeError [ArgText ''run_sync_in_worker_thread''])))"
  using assms by (simp add: pull_defs)

lemma anext_content_length:
  "content_length (fst (anext env g)) = content_length g"
proof -
  obtain g1 out where d: "dispatch_pull env g = (g1, out)"
    by (cases "dispatch_pull env g")
  from dispatch_pull_keeps [OF d] d show ?thesis
    by (auto simp add: anext_def split: sum.splits)
qed

lemma consume_content_length:
  "content_length (consume env n g) = content_length g"
  by (induction n arbitrary: g) (simp_all add: anext_content_length)

text \<open>
  The handler of lines 101-104. When the worker dispatch of a pull ends with an
  \<^verbatim>\<open>Exception\<close> that is not the stream-already-consumed one nor the end-of-stream
  signal, the pull logs the error at warning level, then closes the internal response,
  then raises that same error: the two effects, in this order, come before the error
  reaches the caller, and the connection is closed afterwards.
\<close>

lemma anext_handles_error:
  assumes "dispatch_pull env g = (g1, Inl err)"
    and "isinstance err Exception"
    and "\<not> isinstance err Rq_StreamConsumedError"
    and "\<not> isinstance err ResponseStopIteration"
  shows "anext env g = (g1\<lparr>closed := True\<rparr>, [LogWarning err, CloseResponse], Raised err)
         \<and> closed (fst (anext env g))"
  using assms by (simp add: anext_def)

text \<open>
  A read timeout on the second chunk: the first pull gives the chunk, the second logs,
  closes and raises.
\<close>

lemma anext_handles_error_example:
  "dispatch_pull (ex_env True False ex_ok)
     ((ex_gen [] 0 (\<lambda>n. if n = 0 then Inr (PBytes ''hell'')
                          else Inl (Exn Rq_ConnectionError [ArgText ''Read timed out.''])))
      \<lparr>pulls := 1\<rparr>) =
     ((ex_gen [] 0 (\<lambda>n. if n = 0 then Inr (PBytes ''hell'')
                          else Inl (Exn Rq_ConnectionError [ArgText ''Read timed out.''])))
      \<lparr>pulls := 2\<rparr>,
      Inl (Exn Rq_ConnectionError [ArgText ''Read timed out.'']))
   \<and> isinstance (Exn Rq_ConnectionError [ArgText ''Read timed out.'']) Exception
   \<and> \<not> isinstance (Exn Rq_ConnectionError [ArgText ''Read timed out.''])
         Rq_StreamConsumedError
   \<and> \<not> isinstance (Exn Rq_ConnectionError [ArgText ''Read timed out.''])
         ResponseStopIteration
   \<and> snd (anext (ex_env True False ex_ok)
        ((ex_gen [] 0 (\<lambda>n. if n = 0 then Inr (PBytes ''hell'')
                             else Inl (Exn Rq_ConnectionError [ArgText ''Read timed out.''])))
         \<lparr>pulls := 1\<rparr>)) =
       ([LogWarning (Exn Rq_ConnectionError [ArgText ''Read timed out.'']), CloseResponse],
        Raised (Exn Rq_ConnectionError [ArgText ''Read timed out.'']))
   \<and> closed (fst (anext (ex_env True False ex_ok)
        ((ex_gen [] 0 (\<lambda>n. if n = 0 then Inr (PBytes ''hell'')
                             else Inl (Exn Rq_ConnectionError [ArgText ''Read timed out.''])))
         \<lparr>pulls := 1\<rparr>)))"
proof -
  let ?e = "Exn Rq_ConnectionError [ArgText ''Read timed out.'']"
  let ?g = "ex_gen [] 0 (\<lambda>n. if n = 0 then Inr (PBytes ''hell'') else Inl ?e)"
  have c: "isinstance ?e Exception" "\<not> isinstance ?e Rq_StreamConsumedError"
    "\<not> isinstance ?e ResponseStopIteration" "\<not> isinstance ?e AttributeError"
    by (simp_all add: class_defs)
  have d: "dispatch_pull (ex_env True False ex_ok) (?g\<lparr>pulls := 1\<rparr>) =
      (?g\<lparr>pulls := 2\<rparr>, Inl ?e)"
    using c(4) by (simp add: pull_defs gen_defs)
  from anext_handles_error [OF d c(1-3)] d c show ?thesis by simp
qed


text \<open>
  Claim C7. When the worker dispatch of a pull ends with requests'
  \<^verbatim>\<open>StreamConsumedError\<close>, the pull raises that same error and does nothing else:
  no warning is logged and the internal response is not closed.
\<close>

theorem anext_stream_consumed:
  assumes "dispatch_pull env g = (g1, Inl err)"
    and "isinstance err Rq_StreamConsumedError"
  shows "anext env g = (g1, [], Raised err) \<and> closed (fst (anext env g)) = closed g"
  using assms stream_consumed_not_stop [of err] dispatch_pull_keeps [of env g g1 "Inl err"]
  by (simp add: anext_def)

theorem anext_stream_consumed_witness:
  "dispatch_pull (ex_env True False ex_ok)
     (ex_gen [] 0 (\<lambda>n. Inl (Exn Rq_StreamConsumedError []))) =
     ((ex_gen [] 0 (\<lambda>n. Inl (Exn Rq_StreamConsumedError [])))\<lparr>pulls := 1\<rparr>,
      Inl (Exn Rq_StreamConsumedError []))
   \<and> isinstance (Exn Rq_StreamConsumedError []) Rq_StreamConsumedError
   \<and> snd (anext (ex_env True False ex_ok)
        (ex_gen [] 0 (\<lambda>n. Inl (Exn Rq_StreamConsumedError [])))) =
       ([], Raised (Exn Rq_StreamConsumedError []))
   \<and> \<not> closed (fst (anext (ex_env True False ex_ok)
        (ex_gen [] 0 (\<lambda>n. Inl (Exn Rq_StreamConsumedError [])))))"
proof -
  let ?e = "Exn Rq_StreamConsumedError []"
  let ?g = "ex_gen [] 0 (\<lambda>n. Inl ?e)"
  have c: "isinstance ?e Rq_StreamConsumedError" "\<not> isinstance ?e AttributeError"
    by (simp_all add: class_defs)
  have d: "dispatch_pull (ex_env True False ex_ok) ?g = (?g\<lparr>pulls := 1\<rparr>, Inl ?e)"
    using c(2) by (simp add: pull_defs gen_defs)
  have n: "\<not> closed ?g" by (simp add: ex_gen_def)
  from anext_stream_consumed [OF d c(1)] d c n show ?thesis by simp
qed



section \<open>The declared length\<close>

text \<open>
  Claim C9. For the generator that \<^verbatim>\<open>stream_download\<close> returns, \<^verbatim>\<open>__len__\<close> gives
  the integer read from the response's \<^verbatim>\<open>Content-Length\<close> header when the generator
  was made, and 0 when the header was absent; and after any number of pulls, however
  they ended, it still gives the same value.
\<close>

theorem len_declared_and_constant:
  assumes "stream_download env resp pl kw = Inr g"
  shows "(case tr_headers resp ''Content-Length'' of
            None \<Rightarrow> len g = 0
          | Some s \<Rightarrow> py_int env s = Some (len g))
         \<and> (\<forall>n. len (consume env n g) = len g)"
proof (rule conjI)
  show "case tr_headers resp ''Content-Length'' of
            None \<Rightarrow> len g = 0
          | Some s \<Rightarrow> py_int env s = Some (len g)"
    using assms
    by (auto simp add: stream_download_def init_generator_def pop_def len_def Let_def
        split: option.splits if_splits)
next
  show "\<forall>n. len (consume env n g) = len g"
    by (simp add: len_def consume_content_length)
qed

text \<open>
  The download of the spec's scenario: \<^verbatim>\<open>Content-Length: 12\<close> and three chunks of
  four bytes. The length is 12 at the start and after four pulls.
\<close>

theorem len_declared_and_constant_witness:
  "stream_download (ex_env True False ex_ok)
     (ex_response [(''Content-Length'', ''12'')] (chunks_reader [''hell'', ''o wo'', ''rld!'']))
     (PObj 0) [] =
     Inr (ex_gen [(''Content-Length'', ''12'')] 12
            (chunks_reader [''hell'', ''o wo'', ''rld!'']))
   \<and> len (ex_gen [(''Content-Length'', ''12'')] 12
            (chunks_reader [''hell'', ''o wo'', ''rld!''])) = 12
   \<and> len (consume (ex_env True False ex_ok) 4
        (ex_gen [(''Content-Length'', ''12'')] 12
            (chunks_reader [''hell'', ''o wo'', ''rld!'']))) = 12"
proof -
  let ?rd = "chunks_reader [''hell'', ''o wo'', ''rld!'']"
  let ?hs = "[(''Content-Length'', ''12'')]"
  have s: "stream_download (ex_env True False ex_ok) (ex_response ?hs ?rd) (PObj 0) [] =
      Inr (ex_gen ?hs 12 ?rd)"
    by (simp add: stream_download_def init_generator_def pop_def get_def gen_defs
        decimal_int_def)
  have l: "len (ex_gen ?hs 12 ?rd) = 12" by (simp add: len_def ex_gen_def)
  from len_declared_and_constant [OF s] s l show ?thesis by simp
qed

end
